theory Spec2Isabelle
  imports Complex_Main "HOL-Library.Sublist" "HOL-Library.Monad_Syntax" "HOL-Library.Log_Nat"
begin

section \<open>Python strings\<close>

text \<open>
  A Python \<open>str\<close> is modelled as a \<open>string\<close> whose characters are the code points
  0..255 (Latin-1). Within that range the definitions below follow Python 3:
  \<open>str.lower\<close> maps A..Z and the accented capitals U+00C0..U+00DE (except the
  multiplication sign U+00D7) to the code point 32 above; \<open>str.isspace\<close> holds of
  U+0009..U+000D, U+001C..U+0020, U+0085 and U+00A0.
\<close>

definition lower_char :: "char \<Rightarrow> char" where
  "lower_char c =
     (let n = (of_char c :: nat) in
      if (65 \<le> n \<and> n \<le> 90) \<or> (192 \<le> n \<and> n \<le> 222 \<and> n \<noteq> 215)
      then char_of (n + 32) else c)"

definition lower :: "string \<Rightarrow> string" where
  "lower s = map lower_char s"

definition isspace :: "char \<Rightarrow> bool" where
  "isspace c =
     (let n = (of_char c :: nat) in
      (9 \<le> n \<and> n \<le> 13) \<or> (28 \<le> n \<and> n \<le> 32) \<or> n = 133 \<or> n = 160)"

text \<open>\<open>s.strip()\<close>: leading and trailing whitespace removed.\<close>

definition strip :: "string \<Rightarrow> string" where
  "strip s = rev (dropWhile isspace (rev (dropWhile isspace s)))"

text \<open>
  \<open>s.split()\<close> with no argument: the maximal runs of non-whitespace characters, in
  order; no empty strings. The first argument is the word read so far.
\<close>

fun split_from :: "string \<Rightarrow> string \<Rightarrow> string list" where
  "split_from w [] = (if w = [] then [] else [w])"
| "split_from w (c # cs) =
     (if isspace c then (if w = [] then split_from [] cs else w # split_from [] cs)
      else split_from (w @ [c]) cs)"

definition split :: "string \<Rightarrow> string list" where
  "split s = split_from [] s"

text \<open>\<open>a in b\<close> on strings: \<open>a\<close> occurs in \<open>b\<close> as a contiguous substring.\<close>

fun str_in :: "string \<Rightarrow> string \<Rightarrow> bool" where
  "str_in a [] = (a = [])"
| "str_in a (c # cs) = (prefix a (c # cs) \<or> str_in a cs)"

text \<open>\<open>str(n)\<close> for a non-negative integer: its decimal digits.\<close>

definition digit_char :: "nat \<Rightarrow> char" where
  "digit_char d = char_of (48 + d)"

function str_nat :: "nat \<Rightarrow> string" where
  "str_nat n = (if n < 10 then [digit_char n] else str_nat (n div 10) @ [digit_char (n mod 10)])"
  by pat_completeness auto
termination
  by (relation "measure id") auto

declare str_nat.simps [simp del]

section \<open>Quiz data\<close>

text \<open>
  The dictionaries built by \<open>parse_quiz_for_display\<close>. The key \<open>"short_answer"\<close> holds
  the empty string (nothing parsed), one dictionary, or a list of dictionaries.
\<close>

record mcq =
  mcq_question :: string
  mcq_options :: "string list"
  mcq_correct :: string

record blank =
  blank_question :: string
  blank_answer :: string

record short_q =
  short_question :: string
  short_expected :: string

datatype short_answer = ShortNone | ShortSingle short_q | ShortList "short_q list"

record quiz_data =
  mcq_questions :: "mcq list"
  fill_blanks :: "blank list"
  short_answers :: short_answer
  raw_text :: string

text \<open>Truth value of \<open>quiz_data["short_answer"]\<close>: a dictionary with keys is true.\<close>

fun short_truthy :: "short_answer \<Rightarrow> bool" where
  "short_truthy ShortNone = False"
| "short_truthy (ShortSingle q) = True"
| "short_truthy (ShortList qs) = (qs \<noteq> [])"

text \<open>Python's exceptions that the modelled code can raise.\<close>

datatype py_error = ZeroDivisionError | OverflowError

text \<open>
  The learning progress kept by the memory object (\<open>SmartStudyMemory\<close>), with the two
  entries that \<open>add_quiz_result\<close> writes; an entry of \<open>quiz_scores\<close> is the dictionary
  built there.
\<close>

record quiz_result =
  result_topic :: string
  result_score :: nat
  result_total_questions :: nat
  result_percentage :: rat
  result_weak_areas :: "string list"
  result_timestamp :: string

record learning_progress =
  quiz_scores :: "quiz_result list"
  progress_weak_areas :: "string list"

text \<open>
  \<open>st.session_state\<close>: the fields the quiz code reads and writes. \<open>quiz_answers\<close> is
  the dictionary from widget key to the stored answer. \<open>chains\<close> is \<open>None\<close> when the
  key \<open>"chains"\<close> is not in the session, and else holds the learning progress of
  \<open>st.session_state.chains.memory\<close>. \<open>current_time\<close> is \<open>None\<close> when its key is not
  in the session; \<open>quiz_saved_to_memory\<close> is read with the default \<open>False\<close>.
\<close>

type_synonym answers = "string \<rightharpoonup> string"

record session_state =
  current_topic :: string
  current_content :: string
  current_time :: "string option"
  quiz_generated :: bool
  quiz_submitted :: bool
  quiz_answers :: answers
  quiz_saved_to_memory :: bool
  chains :: "learning_progress option"

text \<open>\<open>d.get(key, "")\<close>.\<close>

definition get_answer :: "answers \<Rightarrow> string \<Rightarrow> string" where
  "get_answer a k = (case a k of None \<Rightarrow> [] | Some v \<Rightarrow> v)"

section \<open>Scoring (display_quiz_results)\<close>

text \<open>The three local variables of the score computation.\<close>

record tally =
  total_questions :: nat
  correct_answers :: nat
  weak_areas :: "string list"

definition weak_entry :: "nat \<Rightarrow> string \<Rightarrow> string" where
  "weak_entry n q = ''Question '' @ str_nat n @ '': '' @ take 50 q @ ''...''"

text \<open>Body of the loop over \<open>enumerate(quiz_data["mcq_questions"])\<close>.\<close>

definition mcq_step :: "answers \<Rightarrow> nat \<Rightarrow> mcq \<Rightarrow> tally \<Rightarrow> tally" where
  "mcq_step a i m t =
     (let t1 = t\<lparr>total_questions := total_questions t + 1\<rparr>;
          user_answer = get_answer a (''mcq_'' @ str_nat i)
      in if user_answer = mcq_correct m
         then t1\<lparr>correct_answers := correct_answers t1 + 1\<rparr>
         else t1\<lparr>weak_areas := weak_areas t1 @ [weak_entry (i + 1) (mcq_question m)]\<rparr>)"

fun mcq_loop :: "answers \<Rightarrow> nat \<Rightarrow> mcq list \<Rightarrow> tally \<Rightarrow> tally" where
  "mcq_loop a i [] t = t"
| "mcq_loop a i (m # ms) t = mcq_loop a (i + 1) ms (mcq_step a i m t)"

text \<open>
  Body of the loop over \<open>enumerate(quiz_data["fill_blanks"])\<close>; \<open>n_mcq\<close> is
  \<open>len(quiz_data['mcq_questions'])\<close>.
\<close>

definition blank_step :: "answers \<Rightarrow> nat \<Rightarrow> nat \<Rightarrow> blank \<Rightarrow> tally \<Rightarrow> tally" where
  "blank_step a n_mcq i b t =
     (let t1 = t\<lparr>total_questions := total_questions t + 1\<rparr>;
          user_answer = lower (get_answer a (''blank_'' @ str_nat i));
          correct_answer = lower (blank_answer b)
      in if str_in user_answer correct_answer \<or> str_in correct_answer user_answer
         then t1\<lparr>correct_answers := correct_answers t1 + 1\<rparr>
         else t1\<lparr>weak_areas := weak_areas t1 @ [weak_entry (n_mcq + i + 1) (blank_question b)]\<rparr>)"

fun blank_loop :: "answers \<Rightarrow> nat \<Rightarrow> nat \<Rightarrow> blank list \<Rightarrow> tally \<Rightarrow> tally" where
  "blank_loop a n_mcq i [] t = t"
| "blank_loop a n_mcq i (b # bs) t = blank_loop a n_mcq (i + 1) bs (blank_step a n_mcq i b t)"

text \<open>
  \<open>sum(1 for keyword in expected_keywords if keyword in user_answer)\<close>.
\<close>

definition keyword_matches :: "string list \<Rightarrow> string \<Rightarrow> nat" where
  "keyword_matches expected_keywords user_answer =
     sum_list (map (\<lambda>keyword. 1) (filter (\<lambda>keyword. str_in keyword user_answer) expected_keywords))"

text \<open>
  Grading of one short answer stored under \<open>key\<close>: the body shared by the loop over a
  list of short answers (\<open>key = "short_answer_<i>"\<close>) and the single-question branch
  (\<open>key = "short_answer"\<close>). The test \<open>keyword_matches >= len(expected_keywords) * 0.5\<close>
  compares an integer with half of an integer, which is exact.
\<close>

definition short_step :: "answers \<Rightarrow> string \<Rightarrow> short_q \<Rightarrow> tally \<Rightarrow> tally" where
  "short_step a key q t =
     (let t1 = t\<lparr>total_questions := total_questions t + 1\<rparr>;
          user_answer = lower (get_answer a key);
          expected_keywords = split (lower (short_expected q))
      in if (of_nat (keyword_matches expected_keywords user_answer) :: rat)
              \<ge> of_nat (length expected_keywords) * (1 / 2)
         then t1\<lparr>correct_answers := correct_answers t1 + 1\<rparr>
         else t1\<lparr>weak_areas := weak_areas t1 @
                 [weak_entry (total_questions t1) (short_question q)]\<rparr>)"

fun short_loop :: "answers \<Rightarrow> nat \<Rightarrow> short_q list \<Rightarrow> tally \<Rightarrow> tally" where
  "short_loop a i [] t = t"
| "short_loop a i (q # qs) t =
     short_loop a (i + 1) qs (short_step a (''short_answer_'' @ str_nat i) q t)"

fun short_part :: "answers \<Rightarrow> short_answer \<Rightarrow> tally \<Rightarrow> tally" where
  "short_part a ShortNone t = t"
| "short_part a (ShortSingle q) t = short_step a ''short_answer'' q t"
| "short_part a (ShortList qs) t = (if qs \<noteq> [] then short_loop a 0 qs t else t)"

text \<open>Lines 523 to 575: the three passes over the quiz, from the zeroed counters.\<close>

definition tally_quiz :: "quiz_data \<Rightarrow> answers \<Rightarrow> tally" where
  "tally_quiz q a =
     (let t0 = \<lparr>total_questions = 0, correct_answers = 0, weak_areas = []\<rparr>;
          t1 = mcq_loop a 0 (mcq_questions q) t0;
          t2 = blank_loop a (length (mcq_questions q)) 0 (fill_blanks q) t1
      in short_part a (short_answers q) t2)"

subsection \<open>Python floats\<close>

text \<open>
  A float is an IEEE 754 double; its value is kept as the rational number it stands
  for. \<open>double_of x\<close> is the double nearest to \<open>x\<close>, ties going to the even
  mantissa: with \<open>2 ^ e \<le> \<bar>x\<bar> < 2 ^ (e + 1)\<close> the doubles around \<open>x\<close> are the
  multiples of \<open>2 ^ (e - 52)\<close>, and of \<open>2 ^ (- 1074)\<close> in the subnormal range.
  Infinity is not a value of the model: \<open>truediv\<close> raises where Python does, and the
  one product taken here has a factor of at most 1.
\<close>

definition pow2 :: "int \<Rightarrow> rat" where
  "pow2 k = 2 powi k"

text \<open>The exponent \<open>e\<close> of a positive rational, from the bit lengths of its fraction.\<close>

definition expo :: "rat \<Rightarrow> int" where
  "expo x = (let (p, q) = quotient_of x; d = bitlen p - bitlen q
             in if pow2 d \<le> x then d else d - 1)"

text \<open>Rounding to the nearest integer, a tie going to the even one.\<close>

definition rne :: "rat \<Rightarrow> int" where
  "rne m = (let f = \<lfloor>m\<rfloor>; r = m - of_int f
            in if r < 1 / 2 then f else if 1 / 2 < r then f + 1
               else if even f then f else f + 1)"

definition double_of :: "rat \<Rightarrow> rat" where
  "double_of x =
     (if x = 0 then 0
      else let y = \<bar>x\<bar>; k = max (expo y - 52) (- 1074);
               r = of_int (rne (y / pow2 k)) * pow2 k
           in if x < 0 then - r else r)"

text \<open>
  \<open>x / y\<close> on integers: ZeroDivisionError for a zero divisor, else the correctly
  rounded quotient, OverflowError when that is beyond the largest double.
\<close>

definition truediv :: "nat \<Rightarrow> nat \<Rightarrow> py_error + rat" where
  "truediv x y =
     (if y = 0 then Inl ZeroDivisionError
      else let r = double_of (of_nat x / of_nat y)
           in if pow2 1024 \<le> r then Inl OverflowError else Inr r)"

text \<open>\<open>r * 100\<close> on a float: the integer converts exactly, the product is rounded.\<close>

definition times_100 :: "rat \<Rightarrow> rat" where
  "times_100 r = double_of (r * 100)"

text \<open>
  Line 578:
  \<open>percentage = (correct_answers / total_questions * 100) if total_questions > 0 else 0\<close>.
\<close>

definition percentage_of :: "tally \<Rightarrow> py_error + rat" where
  "percentage_of t =
     (if total_questions t > 0
      then (case truediv (correct_answers t) (total_questions t) of
              Inl e \<Rightarrow> Inl e
            | Inr r \<Rightarrow> Inr (times_100 r))
      else Inr 0)"

record score_report =
  correct :: nat
  total :: nat
  percentage :: rat
  missed_items :: "string list"

text \<open>Lines 523 to 578: the counters, the descriptors and the percentage.\<close>

definition score :: "quiz_data \<Rightarrow> answers \<Rightarrow> py_error + score_report" where
  "score q a =
     (let t = tally_quiz q a in
      case percentage_of t of
        Inl e \<Rightarrow> Inl e
      | Inr p \<Rightarrow> Inr \<lparr>correct = correct_answers t, total = total_questions t,
                       percentage = p, missed_items = weak_areas t\<rparr>)"

subsection \<open>Saving the result (memory.add_quiz_result)\<close>

text \<open>
  \<open>for area in weak_areas: if area not in self.learning_progress["weak_areas"]: append\<close>.
\<close>

fun add_weak_areas :: "string list \<Rightarrow> string list \<Rightarrow> string list" where
  "add_weak_areas seen [] = seen"
| "add_weak_areas seen (area # areas) =
     add_weak_areas (if area \<in> set seen then seen else seen @ [area]) areas"

text \<open>
  The dictionary is built first, with \<open>(score / total_questions) * 100\<close> and no guard
  on the divisor; an exception there leaves the memory as it was. \<open>now\<close> is the
  session's \<open>current_time\<close>, read by \<open>timestamp_of\<close>.
\<close>

text \<open>\<open>st.session_state.get("current_time", "Unknown")\<close>.\<close>

definition timestamp_of :: "session_state \<Rightarrow> string" where
  "timestamp_of st = (case current_time st of None \<Rightarrow> ''Unknown'' | Some t \<Rightarrow> t)"

definition add_quiz_result ::
  "learning_progress \<Rightarrow> string \<Rightarrow> string \<Rightarrow> nat \<Rightarrow> nat \<Rightarrow> string list
     \<Rightarrow> py_error + learning_progress" where
  "add_quiz_result mem now topic score_value total_value weak =
     (case truediv score_value total_value of
        Inl e \<Rightarrow> Inl e
      | Inr r \<Rightarrow>
          Inr \<lparr>quiz_scores = quiz_scores mem @
                  [\<lparr>result_topic = topic, result_score = score_value,
                    result_total_questions = total_value,
                    result_percentage = times_100 r,
                    result_weak_areas = weak, result_timestamp = now\<rparr>],
               progress_weak_areas = add_weak_areas (progress_weak_areas mem) weak\<rparr>)"

subsection \<open>The whole of display_quiz_results, to line 659\<close>

text \<open>
  The function computes the report, renders it (lines 580 to 648, output only), and,
  when \<open>"chains"\<close> is in the session and the result is not yet saved, hands it to
  \<open>add_quiz_result\<close> and sets \<open>quiz_saved_to_memory\<close>. The first component is the
  report that was rendered (\<open>None\<close> if the computation raised before it); the second
  is the session after the call, or the exception that ended it. The two buttons below
  line 660 act on a later click and are not part of the model.
\<close>

definition display_quiz_results ::
  "session_state \<Rightarrow> quiz_data \<Rightarrow> score_report option \<times> (py_error + session_state)" where
  "display_quiz_results st q =
     (case score q (quiz_answers st) of
        Inl e \<Rightarrow> (None, Inl e)
      | Inr r \<Rightarrow>
          (Some r,
           (case chains st of
              None \<Rightarrow> Inr st
            | Some mem \<Rightarrow>
                if \<not> quiz_saved_to_memory st
                then (case add_quiz_result mem (timestamp_of st) (current_topic st)
                             (correct r) (total r) (missed_items r) of
                        Inl e \<Rightarrow> Inl e
                      | Inr mem' \<Rightarrow>
                          Inr (st\<lparr>chains := Some mem', quiz_saved_to_memory := True\<rparr>))
                else Inr st)))"

text \<open>
  The Submit button of \<open>display_quiz_with_answers\<close> (lines 508 to 513): the quiz
  counts as submitted only when at least one answer is stored.
\<close>

definition submit_quiz :: "session_state \<Rightarrow> session_state" where
  "submit_quiz st =
     (if quiz_answers st \<noteq> Map.empty then st\<lparr>quiz_submitted := True\<rparr> else st)"

section \<open>Regular expressions (the part of Python's re that the parser uses)\<close>

text \<open>
  The patterns of \<open>parse_quiz_for_display\<close> are built from literals, the classes
  \<open>\d\<close>, \<open>\s\<close>, \<open>[...]\<close> and \<open>[^...]\<close>, greedy and lazy repetition of one class,
  capturing groups, sequencing and one optional group. \<open>Rep cl n g\<close> is at least
  \<open>n\<close> characters of class \<open>cl\<close>, greedy when \<open>g\<close> holds and lazy otherwise
  (\<open>\s*\<close> is \<open>Rep Space 0 True\<close>, \<open>[^B]+?\<close> is \<open>Rep (NoneOf ''B'') 1 False\<close>).
\<close>

datatype cls = Digit | Space | OneOf string | NoneOf string

datatype rx =
    Lit string
  | One cls
  | Rep cls nat bool
  | Grp nat rx
  | Opt rx
  | Seq "rx list"

definition isdigit :: "char \<Rightarrow> bool" where
  "isdigit c = (let n = (of_char c :: nat) in 48 \<le> n \<and> n \<le> 57)"

text \<open>
  One character against a class; \<open>ic\<close> is the flag \<open>re.IGNORECASE\<close>, under which a
  set matches a character when it holds a case variant of it.
\<close>

fun cls_match :: "bool \<Rightarrow> cls \<Rightarrow> char \<Rightarrow> bool" where
  "cls_match ic Digit c = isdigit c"
| "cls_match ic Space c = isspace c"
| "cls_match ic (OneOf cs) c =
     (if ic then lower_char c \<in> set (map lower_char cs) else c \<in> set cs)"
| "cls_match ic (NoneOf cs) c =
     (if ic then lower_char c \<notin> set (map lower_char cs) else c \<notin> set cs)"

fun lit_match :: "bool \<Rightarrow> string \<Rightarrow> string \<Rightarrow> string option" where
  "lit_match ic [] s = Some s"
| "lit_match ic (p # ps) [] = None"
| "lit_match ic (p # ps) (x # xs) =
     (if (if ic then lower_char x = lower_char p else x = p) then lit_match ic ps xs else None)"

text \<open>
  The matcher backtracks as the engine does: every construct takes the rest of the
  match as a continuation \<open>k\<close> and returns the first success in the engine's order of
  preference. A greedy repetition tries the longest run first, a lazy one the shortest.
\<close>

fun rep_match ::
  "(char \<Rightarrow> bool) \<Rightarrow> nat \<Rightarrow> bool \<Rightarrow> string \<Rightarrow> (string \<Rightarrow> 'a option) \<Rightarrow> 'a option" where
  "rep_match p (Suc n) g [] k = None"
| "rep_match p (Suc n) g (x # xs) k = (if p x then rep_match p n g xs k else None)"
| "rep_match p 0 g [] k = k []"
| "rep_match p 0 True (x # xs) k =
     (if p x
      then (case rep_match p 0 True xs k of Some r \<Rightarrow> Some r | None \<Rightarrow> k (x # xs))
      else k (x # xs))"
| "rep_match p 0 False (x # xs) k =
     (case k (x # xs) of
        Some r \<Rightarrow> Some r
      | None \<Rightarrow> (if p x then rep_match p 0 False xs k else None))"

text \<open>Captured groups, newest binding first.\<close>

type_synonym caps = "(nat \<times> string) list"

fun rx_match ::
    "bool \<Rightarrow> rx \<Rightarrow> string \<Rightarrow> caps \<Rightarrow> (string \<Rightarrow> caps \<Rightarrow> 'a option) \<Rightarrow> 'a option"
  and seq_match ::
    "bool \<Rightarrow> rx list \<Rightarrow> string \<Rightarrow> caps \<Rightarrow> (string \<Rightarrow> caps \<Rightarrow> 'a option) \<Rightarrow> 'a option"
where
  "rx_match ic (Lit p) s c k = (case lit_match ic p s of None \<Rightarrow> None | Some s' \<Rightarrow> k s' c)"
| "rx_match ic (One cl) s c k =
     (case s of [] \<Rightarrow> None | x # xs \<Rightarrow> if cls_match ic cl x then k xs c else None)"
| "rx_match ic (Rep cl n g) s c k = rep_match (cls_match ic cl) n g s (\<lambda>s'. k s' c)"
| "rx_match ic (Grp i r) s c k =
     rx_match ic r s c (\<lambda>s' c'. k s' ((i, take (length s - length s') s) # c'))"
| "rx_match ic (Opt r) s c k =
     (case rx_match ic r s c k of Some x \<Rightarrow> Some x | None \<Rightarrow> k s c)"
| "rx_match ic (Seq rs) s c k = seq_match ic rs s c k"
| "seq_match ic [] s c k = k s c"
| "seq_match ic (r # rs) s c k = rx_match ic r s c (\<lambda>s' c'. seq_match ic rs s' c' k)"

text \<open>A match starting at the head of \<open>s\<close>: the unread rest and the groups.\<close>

definition match_here :: "bool \<Rightarrow> rx \<Rightarrow> string \<Rightarrow> (string \<times> caps) option" where
  "match_here ic r s = rx_match ic r s [] (\<lambda>s' c. Some (s', c))"

fun ngroups :: "rx \<Rightarrow> nat" where
  "ngroups (Grp i r) = Suc (ngroups r)"
| "ngroups (Opt r) = ngroups r"
| "ngroups (Seq rs) = sum_list (map ngroups rs)"
| "ngroups (Lit p) = 0"
| "ngroups (One cl) = 0"
| "ngroups (Rep cl n g) = 0"

text \<open>The tuple \<open>re.findall\<close> gives for one match: a group that took no part is \<open>''\<close>.\<close>

definition groups_tuple :: "nat \<Rightarrow> caps \<Rightarrow> string list" where
  "groups_tuple n c = map (\<lambda>i. case map_of c i of None \<Rightarrow> [] | Some v \<Rightarrow> v) [1..<Suc n]"

text \<open>
  \<open>re.findall\<close>: the matches from left to right, each search resuming where the last
  match ended. (After a match of no characters the scan moves on by one character; the
  patterns here all begin with \<open>\d+\<close> or a literal and never match the empty string.)
\<close>

function findall :: "bool \<Rightarrow> rx \<Rightarrow> string \<Rightarrow> string list list" where
  "findall ic r s =
     (case match_here ic r s of
        Some (s', c) \<Rightarrow>
          groups_tuple (ngroups r) c #
            (if length s' < length s then findall ic r s'
             else (case s of [] \<Rightarrow> [] | x # xs \<Rightarrow> findall ic r xs))
      | None \<Rightarrow> (case s of [] \<Rightarrow> [] | x # xs \<Rightarrow> findall ic r xs))"
  by pat_completeness auto
termination
  by (relation "measure (\<lambda>(ic, r, s). length s)") auto

declare findall.simps [simp del]

text \<open>\<open>re.search\<close>: the groups of the leftmost match, if any.\<close>

fun search :: "bool \<Rightarrow> rx \<Rightarrow> string \<Rightarrow> caps option" where
  "search ic r [] = (case match_here ic r [] of Some (s', c) \<Rightarrow> Some c | None \<Rightarrow> None)"
| "search ic r (x # xs) =
     (case match_here ic r (x # xs) of Some (s', c) \<Rightarrow> Some c | None \<Rightarrow> search ic r xs)"

section \<open>Parsing (parse_quiz_for_display)\<close>

definition newline :: char where
  "newline = CHR 0x0A"

text \<open>
  \<open>(\d+\.\s*[^A-D]+?)\s*A\)\s*([^B]+?)\s*B\)\s*([^C]+?)\s*C\)\s*([^D]+?)\s*D\)\s*([^C]+?)\s*Correct Answer:\s*([A-D])\<close>
\<close>

definition mcq_pattern :: rx where
  "mcq_pattern = Seq
     [Grp 1 (Seq [Rep Digit 1 True, Lit ''.'', Rep Space 0 True, Rep (NoneOf ''ABCD'') 1 False]),
      Rep Space 0 True, Lit ''A)'', Rep Space 0 True, Grp 2 (Rep (NoneOf ''B'') 1 False),
      Rep Space 0 True, Lit ''B)'', Rep Space 0 True, Grp 3 (Rep (NoneOf ''C'') 1 False),
      Rep Space 0 True, Lit ''C)'', Rep Space 0 True, Grp 4 (Rep (NoneOf ''D'') 1 False),
      Rep Space 0 True, Lit ''D)'', Rep Space 0 True, Grp 5 (Rep (NoneOf ''C'') 1 False),
      Rep Space 0 True, Lit ''Correct Answer:'', Rep Space 0 True, Grp 6 (One (OneOf ''ABCD''))]"

text \<open>The second pattern of the source has the same text as the first.\<close>

definition mcq_pattern_flexible :: rx where
  "mcq_pattern_flexible = Seq
     [Grp 1 (Seq [Rep Digit 1 True, Lit ''.'', Rep Space 0 True, Rep (NoneOf ''ABCD'') 1 False]),
      Rep Space 0 True, Lit ''A)'', Rep Space 0 True, Grp 2 (Rep (NoneOf ''B'') 1 False),
      Rep Space 0 True, Lit ''B)'', Rep Space 0 True, Grp 3 (Rep (NoneOf ''C'') 1 False),
      Rep Space 0 True, Lit ''C)'', Rep Space 0 True, Grp 4 (Rep (NoneOf ''D'') 1 False),
      Rep Space 0 True, Lit ''D)'', Rep Space 0 True, Grp 5 (Rep (NoneOf ''C'') 1 False),
      Rep Space 0 True, Lit ''Correct Answer:'', Rep Space 0 True, Grp 6 (One (OneOf ''ABCD''))]"

text \<open>\<open>(\d+\.\s*[^_]+?)\s*______\s*\[Hint[^]]*\]\s*Answer:\s*([^\n]+)\<close>\<close>

definition blank_pattern :: rx where
  "blank_pattern = Seq
     [Grp 1 (Seq [Rep Digit 1 True, Lit ''.'', Rep Space 0 True, Rep (NoneOf ''_'') 1 False]),
      Rep Space 0 True, Lit ''______'', Rep Space 0 True, Lit ''[Hint'',
      Rep (NoneOf '']'') 0 True, Lit '']'', Rep Space 0 True, Lit ''Answer:'',
      Rep Space 0 True, Grp 2 (Rep (NoneOf [newline]) 1 True)]"

text \<open>\<open>(\d+\.\s*[^_]+?)\s*______\s*\.\s*Answer:\s*([^\n]+)\<close>\<close>

definition blank_pattern_simple :: rx where
  "blank_pattern_simple = Seq
     [Grp 1 (Seq [Rep Digit 1 True, Lit ''.'', Rep Space 0 True, Rep (NoneOf ''_'') 1 False]),
      Rep Space 0 True, Lit ''______'', Rep Space 0 True, Lit ''.'',
      Rep Space 0 True, Lit ''Answer:'',
      Rep Space 0 True, Grp 2 (Rep (NoneOf [newline]) 1 True)]"

text \<open>
  \<open>Short Answer Questions[^:]*:\s*(\d+\.\s*[^E]+?)Expected Answer:\s*([^\n]+)(?:\s*\d+\.\s*([^E]+?)Expected Answer:\s*([^\n]+))?\<close>
\<close>

definition short_pattern :: rx where
  "short_pattern = Seq
     [Lit ''Short Answer Questions'', Rep (NoneOf '':'') 0 True, Lit '':'', Rep Space 0 True,
      Grp 1 (Seq [Rep Digit 1 True, Lit ''.'', Rep Space 0 True, Rep (NoneOf ''E'') 1 False]),
      Lit ''Expected Answer:'', Rep Space 0 True, Grp 2 (Rep (NoneOf [newline]) 1 True),
      Opt (Seq [Rep Space 0 True, Rep Digit 1 True, Lit ''.'', Rep Space 0 True,
                Grp 3 (Rep (NoneOf ''E'') 1 False),
                Lit ''Expected Answer:'', Rep Space 0 True,
                Grp 4 (Rep (NoneOf [newline]) 1 True)])]"

text \<open>
  The body of the function runs inside \<open>try\<close>: \<open>None\<close> stands for a raised exception.
  \<open>match[i]\<close> on a tuple raises IndexError out of range; \<open>m.group(i)\<close> of a group that
  took no part is Python's \<open>None\<close>, on which \<open>.strip()\<close> raises.
\<close>

definition tuple_get :: "string list \<Rightarrow> nat \<Rightarrow> string option" where
  "tuple_get m i = (if i < length m then Some (m ! i) else None)"

definition mcq_matches :: "string \<Rightarrow> string list list" where
  "mcq_matches quiz_text =
     (let ms = findall False mcq_pattern quiz_text
      in if ms = [] then findall True mcq_pattern_flexible quiz_text else ms)"

definition mcq_of_match :: "string list \<Rightarrow> mcq option" where
  "mcq_of_match m = do {
     g0 \<leftarrow> tuple_get m 0;
     g1 \<leftarrow> tuple_get m 1;
     g2 \<leftarrow> tuple_get m 2;
     g3 \<leftarrow> tuple_get m 3;
     g4 \<leftarrow> tuple_get m 4;
     g5 \<leftarrow> tuple_get m 5;
     Some \<lparr>mcq_question = strip g0,
           mcq_options = [strip g1, strip g2, strip g3, strip g4],
           mcq_correct = strip g5\<rparr>
   }"

fun mcq_items :: "string list list \<Rightarrow> mcq list option" where
  "mcq_items [] = Some []"
| "mcq_items (m # ms) = do { x \<leftarrow> mcq_of_match m; xs \<leftarrow> mcq_items ms; Some (x # xs) }"

definition blank_matches :: "string \<Rightarrow> string list list" where
  "blank_matches quiz_text =
     (let ms = findall False blank_pattern quiz_text
      in if ms = [] then findall False blank_pattern_simple quiz_text else ms)"

definition blank_of_match :: "string list \<Rightarrow> blank option" where
  "blank_of_match m = do {
     g0 \<leftarrow> tuple_get m 0;
     g1 \<leftarrow> tuple_get m 1;
     Some \<lparr>blank_question = strip g0, blank_answer = strip g1\<rparr>
   }"

fun blank_items :: "string list list \<Rightarrow> blank list option" where
  "blank_items [] = Some []"
| "blank_items (m # ms) = do { x \<leftarrow> blank_of_match m; xs \<leftarrow> blank_items ms; Some (x # xs) }"

text \<open>\<open>if short_match.group(3)\<close>: the group took part and is not empty.\<close>

definition group_truthy :: "caps \<Rightarrow> nat \<Rightarrow> bool" where
  "group_truthy c i = (case map_of c i of None \<Rightarrow> False | Some v \<Rightarrow> v \<noteq> [])"

definition short_of_match :: "caps option \<Rightarrow> short_answer option" where
  "short_of_match short_match =
     (case short_match of
        None \<Rightarrow> Some ShortNone
      | Some c \<Rightarrow>
          if group_truthy c 3
          then do {
            g1 \<leftarrow> map_of c 1;
            g2 \<leftarrow> map_of c 2;
            g3 \<leftarrow> map_of c 3;
            g4 \<leftarrow> map_of c 4;
            Some (ShortList [\<lparr>short_question = strip g1, short_expected = strip g2\<rparr>,
                             \<lparr>short_question = strip g3, short_expected = strip g4\<rparr>])
          }
          else do {
            g1 \<leftarrow> map_of c 1;
            g2 \<leftarrow> map_of c 2;
            Some (ShortSingle \<lparr>short_question = strip g1, short_expected = strip g2\<rparr>)
          })"

definition create_fallback_quiz_data :: quiz_data where
  "create_fallback_quiz_data =
     \<lparr>mcq_questions =
        [\<lparr>mcq_question = ''1. What is the main purpose of a CV?'',
          mcq_options = [''To list personal hobbies'',
                         ''To showcase work experience and qualifications'',
                         ''To write a story'',
                         ''To make friends''],
          mcq_correct = ''B''\<rparr>,
         \<lparr>mcq_question = ''2. What should be included in a professional CV?'',
          mcq_options = [''Only personal information'',
                         ''Work experience, education, and skills'',
                         ''Only education'',
                         ''Only skills''],
          mcq_correct = ''B''\<rparr>,
         \<lparr>mcq_question = ''3. What language was the CV written in?'',
          mcq_options = [''English'', ''French'', ''Dutch'', ''German''],
          mcq_correct = ''C''\<rparr>],
      fill_blanks =
        [\<lparr>blank_question = ''1. A CV is also known as a ______.'',
          blank_answer = ''resume''\<rparr>,
         \<lparr>blank_question = ''2. Blal Masroor worked as a kitchen ______ in restaurants.'',
          blank_answer = ''assistant''\<rparr>],
      short_answers = ShortList
        [\<lparr>short_question = ''1. What type of work experience does Blal Masroor have?'',
          short_expected = ''He has experience working in restaurants as a kitchen assistant, with certifications in culinary arts.''\<rparr>,
         \<lparr>short_question = ''2. What certifications does Blal Masroor have?'',
          short_expected = ''He has certifications in chocolate making, praline making, bread baking, and pastry making from Centrum voor Volwassenenonderwijs Gent.''\<rparr>],
      raw_text = ''Fallback quiz generated due to parsing issues''\<rparr>"

definition parse_body :: "string \<Rightarrow> quiz_data option" where
  "parse_body quiz_text = do {
     ms \<leftarrow> mcq_items (mcq_matches quiz_text);
     bs \<leftarrow> blank_items (blank_matches quiz_text);
     sa \<leftarrow> short_of_match (search False short_pattern quiz_text);
     Some (if ms = [] \<and> bs = [] \<and> \<not> short_truthy sa
           then create_fallback_quiz_data
           else \<lparr>mcq_questions = ms, fill_blanks = bs, short_answers = sa,
                 raw_text = quiz_text\<rparr>)
   }"

text \<open>The \<open>except\<close> branch returns the fallback quiz.\<close>

definition parse_quiz_for_display :: "string \<Rightarrow> quiz_data" where
  "parse_quiz_for_display quiz_text =
     (case parse_body quiz_text of None \<Rightarrow> create_fallback_quiz_data | Some q \<Rightarrow> q)"

section \<open>The grading rules and the report, as the specification words them\<close>

text \<open>
  The specification's per-item rules, written over \<open>sublist\<close> (\<open>xs\<close> is a sublist of
  \<open>ys\<close> when \<open>ys = ps @ xs @ ss\<close>) and the answer keys \<open>mcq_<index>\<close>,
  \<open>blank_<index>\<close>, \<open>short_answer_<index>\<close> and \<open>short_answer\<close>. An item is paired
  with its index in its own list.
\<close>

definition spec_mcq_correct :: "answers \<Rightarrow> nat \<times> mcq \<Rightarrow> bool" where
  "spec_mcq_correct a = (\<lambda>(i, m). get_answer a (''mcq_'' @ str_nat i) = mcq_correct m)"

definition spec_blank_correct :: "answers \<Rightarrow> nat \<times> blank \<Rightarrow> bool" where
  "spec_blank_correct a = (\<lambda>(i, b).
     sublist (lower (get_answer a (''blank_'' @ str_nat i))) (lower (blank_answer b)) \<or>
     sublist (lower (blank_answer b)) (lower (get_answer a (''blank_'' @ str_nat i))))"

text \<open>
  The number of expected keywords, repeated ones counted each time, that occur in the
  submission.
\<close>

definition spec_keywords_found :: "string \<Rightarrow> string \<Rightarrow> nat" where
  "spec_keywords_found expected submitted =
     length (filter (\<lambda>k. sublist k (lower submitted)) (split (lower expected)))"

definition spec_short_correct :: "answers \<Rightarrow> nat \<times> string \<times> short_q \<Rightarrow> bool" where
  "spec_short_correct a = (\<lambda>(i, key, q).
     2 * spec_keywords_found (short_expected q) (get_answer a key)
       \<ge> length (split (lower (short_expected q))))"

text \<open>The short-answer items with their index and answer key.\<close>

definition short_keyed :: "nat \<times> short_q \<Rightarrow> nat \<times> string \<times> short_q" where
  "short_keyed = (\<lambda>(i, q). (i, ''short_answer_'' @ str_nat i, q))"

fun short_items :: "short_answer \<Rightarrow> (nat \<times> string \<times> short_q) list" where
  "short_items ShortNone = []"
| "short_items (ShortSingle q) = [(0, ''short_answer'', q)]"
| "short_items (ShortList qs) = map short_keyed (enumerate 0 qs)"

text \<open>The answer keys the items of a quiz are stored under.\<close>

definition answer_keys :: "quiz_data \<Rightarrow> string list" where
  "answer_keys q =
     map (\<lambda>i. ''mcq_'' @ str_nat i) [0..<length (mcq_questions q)] @
     map (\<lambda>i. ''blank_'' @ str_nat i) [0..<length (fill_blanks q)] @
     map (\<lambda>(i, key, sq). key) (short_items (short_answers q))"

text \<open>The descriptor of a missed short answer, \<open>n\<close> items standing before the first.\<close>

definition short_entry :: "nat \<Rightarrow> nat \<times> string \<times> short_q \<Rightarrow> string" where
  "short_entry n = (\<lambda>(j, key, q). weak_entry (n + j + 1) (short_question q))"

definition spec_total :: "quiz_data \<Rightarrow> nat" where
  "spec_total q =
     length (mcq_questions q) + length (fill_blanks q) + length (short_items (short_answers q))"

definition spec_correct :: "quiz_data \<Rightarrow> answers \<Rightarrow> nat" where
  "spec_correct q a =
     length (filter (spec_mcq_correct a) (enumerate 0 (mcq_questions q))) +
     length (filter (spec_blank_correct a) (enumerate 0 (fill_blanks q))) +
     length (filter (spec_short_correct a) (short_items (short_answers q)))"



text \<open>The descriptors of the failing items: MCQs, then fill-blanks, then short answers.\<close>

definition spec_missed :: "quiz_data \<Rightarrow> answers \<Rightarrow> string list" where
  "spec_missed q a =
     map (\<lambda>(j, m). weak_entry (j + 1) (mcq_question m))
       (filter (\<lambda>x. \<not> spec_mcq_correct a x) (enumerate 0 (mcq_questions q))) @
     map (\<lambda>(j, b). weak_entry (length (mcq_questions q) + j + 1) (blank_question b))
       (filter (\<lambda>x. \<not> spec_blank_correct a x) (enumerate 0 (fill_blanks q))) @
     map (short_entry (length (mcq_questions q) + length (fill_blanks q)))
       (filter (\<lambda>x. \<not> spec_short_correct a x) (short_items (short_answers q)))"

text \<open>
  The single pass the specification proposes in place of the two passes over the
  multiple-choice pattern: the pattern compiled with \<open>re.IGNORECASE\<close>.
\<close>

definition mcq_single_pass_ignorecase :: "string \<Rightarrow> string list list" where
  "mcq_single_pass_ignorecase quiz_text = findall True mcq_pattern quiz_text"

section \<open>Sample inputs\<close>


definition cv_blank :: blank where
  "cv_blank = \<lparr>blank_question = ''1. A CV is also known as a ______.'', blank_answer = ''resume''\<rparr>"

definition cv_mcq :: mcq where
  "cv_mcq = \<lparr>mcq_question = ''1. What is the main purpose of a CV?'',
             mcq_options = [''To list personal hobbies'',
                            ''To showcase work experience and qualifications'',
                            ''To write a story'',
                            ''To make friends''],
             mcq_correct = ''B''\<rparr>"



text \<open>A short-answer section with three entries.\<close>

definition three_entries :: string where
  "three_entries =
     ''Short Answer Questions: 1. Q1 Expected Answer: a1'' @ [newline] @
     ''2. Q2 Expected Answer: a2'' @ [newline] @
     ''3. Q3 Expected Answer: a3''"

text \<open>
  A multiple-choice block whose prompt holds a lower-case \<open>b\<close>, and one whose markers
  are all in lower case.
\<close>

definition lowercase_prompt :: string where
  "lowercase_prompt = ''1.b A)x B)y C)z D)w Correct Answer:A''"

definition lowercase_markers :: string where
  "lowercase_markers = ''1.x a)p b)q c)r d)s correct answer:a''"

definition no_progress :: learning_progress where
  "no_progress = \<lparr>quiz_scores = [], progress_weak_areas = []\<rparr>"

definition session_one :: session_state where
  "session_one = \<lparr>current_topic = ''CV writing'', current_content = ''notes'',
                  current_time = Some ''2024-01-01 10:00:00'',
                  quiz_generated = True, quiz_submitted = True,
                  quiz_answers = [''mcq_0'' \<mapsto> ''B''], quiz_saved_to_memory = False,
                  chains = Some no_progress\<rparr>"

definition session_two :: session_state where
  "session_two = \<lparr>current_topic = ''Baking'', current_content = [],
                  current_time = None,
                  quiz_generated = True, quiz_submitted = True,
                  quiz_answers = [''mcq_0'' \<mapsto> ''B''], quiz_saved_to_memory = True,
                  chains = None\<rparr>"

definition one_mcq_quiz :: quiz_data where
  "one_mcq_quiz = \<lparr>mcq_questions = [cv_mcq], fill_blanks = [], short_answers = ShortNone,
                   raw_text = []\<rparr>"

definition session_three :: session_state where
  "session_three = \<lparr>current_topic = ''CV writing'', current_content = ''notes'',
                    current_time = Some ''2024-01-01 10:00:00'',
                    quiz_generated = True, quiz_submitted = True,
                    quiz_answers = [''mcq_0'' \<mapsto> ''B'', ''blank_0'' \<mapsto> ''resume''],
                    quiz_saved_to_memory = False, chains = Some no_progress\<rparr>"




section \<open>Facts about rounding to a double\<close>

lemma pow2_pos: "0 < pow2 k"
  by (simp add: pow2_def)

lemma pow2_mono: "a \<le> b \<Longrightarrow> pow2 a \<le> pow2 b"
  unfolding pow2_def by (rule power_int_increasing) simp_all

lemma pow2_less_cancel: "pow2 a < pow2 b \<Longrightarrow> a < b"
  using pow2_mono [of b a] by (cases "a < b") auto

text \<open>The exponent found is not too large: \<open>2 ^ expo x \<le> x\<close>.\<close>

lemma expo_le:
  assumes "0 < x"
  shows "pow2 (expo x) \<le> x"
proof -
  obtain p q where pq: "quotient_of x = (p, q)"
    by (cases "quotient_of x")
  have q: "0 < q"
    using pq by (rule quotient_of_denom_pos)
  have x: "x = of_int p / of_int q"
    using pq by (rule quotient_of_div)
  have p: "0 < p"
    using assms q x by (simp add: zero_less_divide_iff)
  let ?d = "bitlen p - bitlen q"
  show ?thesis
  proof (cases "pow2 ?d \<le> x")
    case True
    then show ?thesis by (simp add: expo_def pq)
  next
    case False
    then have e: "expo x = bitlen p - 1 - bitlen q"
      by (simp add: expo_def pq)
    have bp: "2 ^ nat (bitlen p - 1) \<le> p" and bq: "q < 2 ^ nat (bitlen q)"
      using bitlen_bounds [OF p] bitlen_bounds [OF q] by simp_all
    have p1: "0 \<le> bitlen p - 1"
      using p by (simp add: bitlen_alt_def)
    have "pow2 (bitlen p - 1 - bitlen q) = pow2 (bitlen p - 1) / pow2 (bitlen q)"
      unfolding pow2_def by (rule power_int_diff) simp
    also have "pow2 (bitlen p - 1) = 2 ^ nat (bitlen p - 1)"
      using p1 by (simp add: pow2_def power_int_nonneg_exp)
    also have "pow2 (bitlen q) = 2 ^ nat (bitlen q)"
      using bitlen_nonneg [of q] by (simp add: pow2_def power_int_nonneg_exp)
    also have "(2::rat) ^ nat (bitlen p - 1) / 2 ^ nat (bitlen q) \<le> of_int p / of_int q"
    proof (rule frac_le)
      have "(of_int (2 ^ nat (bitlen p - 1)) :: rat) \<le> of_int p"
        using bp by (simp only: of_int_le_iff)
      then show "(2::rat) ^ nat (bitlen p - 1) \<le> of_int p" by simp
      show "(0::rat) < of_int q" using q by simp
      have "(of_int q :: rat) < of_int (2 ^ nat (bitlen q))"
        using bq by (simp only: of_int_less_iff)
      then show "(of_int q :: rat) \<le> 2 ^ nat (bitlen q)" by simp
      show "(0::rat) \<le> of_int p" using p by simp
    qed
    finally show ?thesis
      using e x by simp
  qed
qed


lemma rne_le_int: "m \<le> of_int n \<Longrightarrow> rne m \<le> n"
proof -
  assume mn: "m \<le> of_int n"
  have f: "\<lfloor>m\<rfloor> \<le> n"
    using mn by (simp add: floor_le_iff)
  show ?thesis
  proof (cases "\<lfloor>m\<rfloor> = n")
    case True
    then have "m - of_int \<lfloor>m\<rfloor> \<le> 0"
      using mn by simp
    then show ?thesis
      using True by (auto simp: rne_def Let_def)
  next
    case False
    with f have "\<lfloor>m\<rfloor> + 1 \<le> n" by simp
    then show ?thesis
      using f by (auto simp: rne_def Let_def)
  qed
qed

lemma rne_nonneg: "0 \<le> m \<Longrightarrow> 0 \<le> rne m"
proof -
  assume "0 \<le> m"
  then have "0 \<le> \<lfloor>m\<rfloor>" by simp
  then show ?thesis
    by (auto simp: rne_def Let_def)
qed

lemma double_of_nonneg:
  assumes "0 \<le> x"
  shows "0 \<le> double_of x"
proof (cases "x = 0")
  case True
  then show ?thesis by (simp add: double_of_def)
next
  case False
  let ?k = "max (expo x - 52) (- 1074)"
  have "0 \<le> x / pow2 ?k"
    using assms pow2_pos [of ?k] by (simp add: divide_nonneg_pos)
  then have "0 \<le> rne (x / pow2 ?k)"
    by (rule rne_nonneg)
  then have "(0::rat) \<le> of_int (rne (x / pow2 ?k)) * pow2 ?k"
    using pow2_pos [of ?k] by (simp add: mult_nonneg_nonneg)
  then show ?thesis
    using False assms by (simp add: double_of_def Let_def)
qed

text \<open>Integers below \<open>2 ^ 53\<close> are doubles: rounding never crosses one.\<close>

lemma double_of_le_int:
  assumes "0 \<le> x" and "x \<le> of_int b" and "b < 2 ^ 53"
  shows "double_of x \<le> of_int b"
proof (cases "x = 0")
  case True
  with assms show ?thesis by (simp add: double_of_def)
next
  case False
  with assms have x: "0 < x" by simp
  let ?k = "max (expo x - 52) (- 1074)"
  have "pow2 (expo x) \<le> of_int b"
    using expo_le [OF x] assms(2) by simp
  also have "(of_int b :: rat) < of_int (2 ^ 53)"
    using assms(3) by (simp only: of_int_less_iff)
  also have "(of_int (2 ^ 53) :: rat) = pow2 53"
    by (simp add: pow2_def)
  finally have "expo x < 53"
    by (rule pow2_less_cancel)
  then have k: "?k \<le> 0" by simp
  have inv: "1 / pow2 ?k = of_int (2 ^ nat (- ?k))"
    using k by (simp add: pow2_def power_int_def inverse_eq_divide power_one_over [symmetric] del: max.bounded_iff)
  have "x / pow2 ?k \<le> of_int b / pow2 ?k"
    using assms(2) pow2_pos [of ?k] by (simp add: divide_right_mono)
  also have "of_int b / pow2 ?k = of_int (b * 2 ^ nat (- ?k))"
  proof -
    have "of_int b / pow2 ?k = of_int b * (1 / pow2 ?k)"
      by simp
    also have "\<dots> = of_int b * of_int (2 ^ nat (- ?k))"
      by (simp only: inv)
    also have "\<dots> = of_int (b * 2 ^ nat (- ?k))"
      by simp
    finally show ?thesis .
  qed
  finally have "rne (x / pow2 ?k) \<le> b * 2 ^ nat (- ?k)"
    by (rule rne_le_int)
  then have "(of_int (rne (x / pow2 ?k)) :: rat) \<le> of_int (b * 2 ^ nat (- ?k))"
    by (simp only: of_int_le_iff)
  then have "of_int (rne (x / pow2 ?k)) * pow2 ?k \<le> of_int (b * 2 ^ nat (- ?k)) * pow2 ?k"
    using pow2_pos [of ?k] by (simp add: mult_right_mono)
  also have "of_int (b * 2 ^ nat (- ?k)) * pow2 ?k = of_int b * (1 / pow2 ?k) * pow2 ?k"
    using inv by simp
  also have "\<dots> = of_int b"
    using pow2_pos [of ?k] by simp
  finally show ?thesis
    using x by (simp add: double_of_def Let_def)
qed


text \<open>A quotient of at most 1 and its product with 100, as the code computes them.\<close>

lemma truediv_fraction:
  assumes "x \<le> y" and "0 < y"
  shows "truediv x y = Inr (double_of (of_nat x / of_nat y))"
    and "0 \<le> double_of (of_nat x / of_nat y)"
    and "double_of (of_nat x / of_nat y) \<le> 1"
proof -
  let ?x = "(of_nat x :: rat) / of_nat y"
  have x0: "0 \<le> ?x" by simp
  have x1: "?x \<le> of_int 1"
    using assms by (simp add: divide_le_eq_1)
  show n: "0 \<le> double_of ?x"
    using x0 by (rule double_of_nonneg)
  have "double_of ?x \<le> of_int 1"
    using x0 x1 by (rule double_of_le_int) simp
  then show l: "double_of ?x \<le> 1" by simp
  have "pow2 1 \<le> pow2 1024"
    by (rule pow2_mono) simp
  moreover have "pow2 1 = 2"
    by (simp add: pow2_def)
  ultimately have "1 < pow2 1024"
    by linarith
  with l have "\<not> pow2 1024 \<le> double_of ?x" by linarith
  then show "truediv x y = Inr (double_of ?x)"
    using assms by (simp add: truediv_def Let_def)
qed

lemma times_100_bounds:
  assumes "0 \<le> r" and "r \<le> 1"
  shows "0 \<le> times_100 r" and "times_100 r \<le> 100"
proof -
  have y0: "0 \<le> r * 100" using assms by simp
  have y1: "r * 100 \<le> of_int 100" using assms by simp
  show "0 \<le> times_100 r"
    unfolding times_100_def using y0 by (rule double_of_nonneg)
  have "double_of (r * 100) \<le> of_int 100"
    using y0 y1 by (rule double_of_le_int) simp
  then show "times_100 r \<le> 100"
    by (simp add: times_100_def)
qed


section \<open>Facts about strings and the loops\<close>

lemma str_in_sublist: "str_in a b \<longleftrightarrow> sublist a b"
  by (induction b) (auto simp: sublist_Cons_right)

lemma keyword_matches_eq:
  "keyword_matches kws u = length (filter (\<lambda>k. sublist k u) kws)"
  by (induction kws) (auto simp: keyword_matches_def str_in_sublist)

lemma half_le_iff: "((of_nat k :: rat) \<ge> of_nat n * (1 / 2)) \<longleftrightarrow> n \<le> 2 * k"
proof -
  have "((of_nat k :: rat) \<ge> of_nat n * (1 / 2)) \<longleftrightarrow> (of_nat n :: rat) \<le> of_nat (2 * k)"
    by (simp add: field_simps)
  also have "\<dots> \<longleftrightarrow> n \<le> 2 * k"
    by (rule of_nat_le_iff)
  finally show ?thesis .
qed

lemma mcq_step_fields:
  "total_questions (mcq_step a i m t) = total_questions t + 1"
  "correct_answers (mcq_step a i m t) =
     correct_answers t + (if spec_mcq_correct a (i, m) then 1 else 0)"
  "weak_areas (mcq_step a i m t) =
     weak_areas t @ (if spec_mcq_correct a (i, m) then [] else [weak_entry (i + 1) (mcq_question m)])"
  by (simp_all add: mcq_step_def spec_mcq_correct_def Let_def)

lemma mcq_loop_fields:
  "total_questions (mcq_loop a i ms t) = total_questions t + length ms \<and>
   correct_answers (mcq_loop a i ms t) =
     correct_answers t + length (filter (spec_mcq_correct a) (enumerate i ms)) \<and>
   weak_areas (mcq_loop a i ms t) =
     weak_areas t @ map (\<lambda>(j, m). weak_entry (j + 1) (mcq_question m))
                       (filter (\<lambda>x. \<not> spec_mcq_correct a x) (enumerate i ms))"
  by (induction ms arbitrary: i t) (simp_all add: mcq_step_fields)

lemma blank_step_fields:
  "total_questions (blank_step a n i b t) = total_questions t + 1"
  "correct_answers (blank_step a n i b t) =
     correct_answers t + (if spec_blank_correct a (i, b) then 1 else 0)"
  "weak_areas (blank_step a n i b t) =
     weak_areas t @ (if spec_blank_correct a (i, b) then []
                     else [weak_entry (n + i + 1) (blank_question b)])"
  by (simp_all add: blank_step_def spec_blank_correct_def Let_def str_in_sublist)

lemma blank_loop_fields:
  "total_questions (blank_loop a n i bs t) = total_questions t + length bs \<and>
   correct_answers (blank_loop a n i bs t) =
     correct_answers t + length (filter (spec_blank_correct a) (enumerate i bs)) \<and>
   weak_areas (blank_loop a n i bs t) =
     weak_areas t @ map (\<lambda>(j, b). weak_entry (n + j + 1) (blank_question b))
                       (filter (\<lambda>x. \<not> spec_blank_correct a x) (enumerate i bs))"
  by (induction bs arbitrary: i t) (simp_all add: blank_step_fields)

lemma short_step_fields:
  "total_questions (short_step a key q t) = total_questions t + 1 \<and>
   correct_answers (short_step a key q t) =
     correct_answers t + (if spec_short_correct a (i, key, q) then 1 else 0) \<and>
   weak_areas (short_step a key q t) =
     weak_areas t @ (if spec_short_correct a (i, key, q) then []
                     else [weak_entry (total_questions t + 1) (short_question q)])"
  by (simp add: short_step_def spec_short_correct_def spec_keywords_found_def Let_def
        half_le_iff keyword_matches_eq)

text \<open>
  In the loop over a list of short answers the descriptor is numbered by the running
  total, which stands \<open>n\<close> above the loop index.
\<close>

lemma short_loop_fields:
  "total_questions t = n + i \<Longrightarrow>
   total_questions (short_loop a i qs t) = total_questions t + length qs \<and>
   correct_answers (short_loop a i qs t) =
     correct_answers t + length (filter (spec_short_correct a) (map short_keyed (enumerate i qs))) \<and>
   weak_areas (short_loop a i qs t) =
     weak_areas t @ map (short_entry n)
                       (filter (\<lambda>x. \<not> spec_short_correct a x) (map short_keyed (enumerate i qs)))"
proof (induction qs arbitrary: i t)
  case Nil
  then show ?case by simp
next
  case (Cons q qs)
  let ?t = "short_step a (''short_answer_'' @ str_nat i) q t"
  have "total_questions ?t = n + (i + 1)"
    using Cons.prems by (simp add: short_step_fields [where i = i])
  from Cons.IH [OF this] show ?case
    using Cons.prems
    by (simp add: short_step_fields [where i = i and a = a] short_keyed_def short_entry_def)
qed

lemma short_part_fields:
  "total_questions (short_part a sa t) = total_questions t + length (short_items sa) \<and>
   correct_answers (short_part a sa t) =
     correct_answers t + length (filter (spec_short_correct a) (short_items sa)) \<and>
   weak_areas (short_part a sa t) =
     weak_areas t @ map (short_entry (total_questions t))
                       (filter (\<lambda>x. \<not> spec_short_correct a x) (short_items sa))"
proof (cases sa)
  case ShortNone
  then show ?thesis by simp
next
  case (ShortSingle q)
  then show ?thesis
    by (simp add: short_step_fields [where i = 0 and a = a] short_entry_def)
next
  case (ShortList qs)
  have "total_questions t = total_questions t + 0" by simp
  from short_loop_fields [OF this, of a qs] ShortList show ?thesis
    by simp
qed

lemma tally_quiz_fields:
  "total_questions (tally_quiz q a) = spec_total q"
  "correct_answers (tally_quiz q a) = spec_correct q a"
  "weak_areas (tally_quiz q a) = spec_missed q a"
  by (simp_all add: tally_quiz_def Let_def short_part_fields blank_loop_fields mcq_loop_fields
        spec_total_def spec_correct_def spec_missed_def)

lemma length_filter_split:
  "length (filter P xs) + length (filter (\<lambda>x. \<not> P x) xs) = length xs"
  by (induction xs) auto

lemma spec_correct_missed: "spec_correct q a + length (spec_missed q a) = spec_total q"
proof -
  have "spec_correct q a + length (spec_missed q a) =
        (length (filter (spec_mcq_correct a) (enumerate 0 (mcq_questions q))) +
         length (filter (\<lambda>x. \<not> spec_mcq_correct a x) (enumerate 0 (mcq_questions q)))) +
        (length (filter (spec_blank_correct a) (enumerate 0 (fill_blanks q))) +
         length (filter (\<lambda>x. \<not> spec_blank_correct a x) (enumerate 0 (fill_blanks q)))) +
        (length (filter (spec_short_correct a) (short_items (short_answers q))) +
         length (filter (\<lambda>x. \<not> spec_short_correct a x) (short_items (short_answers q))))"
    by (simp add: spec_correct_def spec_missed_def)
  also have "\<dots> = length (enumerate 0 (mcq_questions q)) + length (enumerate 0 (fill_blanks q)) +
                   length (short_items (short_answers q))"
    by (simp only: length_filter_split)
  also have "\<dots> = spec_total q"
    by (simp add: spec_total_def)
  finally show ?thesis .
qed

lemma spec_correct_le: "spec_correct q a \<le> spec_total q"
  using spec_correct_missed [of q a] by linarith

lemma score_eq:
  "score q a = Inr \<lparr>correct = spec_correct q a, total = spec_total q,
                    percentage = (if spec_total q > 0
                                  then times_100 (double_of (of_nat (spec_correct q a) /
                                                             of_nat (spec_total q)))
                                  else 0),
                    missed_items = spec_missed q a\<rparr>"
proof (cases "spec_total q > 0")
  case True
  from truediv_fraction(1) [OF spec_correct_le True, of a] True show ?thesis
    by (simp add: score_def percentage_of_def tally_quiz_fields Let_def)
next
  case False
  then show ?thesis
    by (simp add: score_def percentage_of_def tally_quiz_fields Let_def)
qed

lemma fallback_counts:
  "length (mcq_questions create_fallback_quiz_data) = 3 \<and>
   length (fill_blanks create_fallback_quiz_data) = 2 \<and>
   length (short_items (short_answers create_fallback_quiz_data)) = 2 \<and>
   spec_total create_fallback_quiz_data = 7"
  by (simp add: create_fallback_quiz_data_def spec_total_def)

section \<open>Answers that are absent, answers under other keys\<close>




lemma agree_get_answer: "a k = a' k \<Longrightarrow> get_answer a k = get_answer a' k"
  by (simp add: get_answer_def)

lemma agree_on_keys:
  assumes "\<forall>k \<in> set (answer_keys q). a k = a' k"
  shows "filter (spec_mcq_correct a) (enumerate 0 (mcq_questions q)) =
           filter (spec_mcq_correct a') (enumerate 0 (mcq_questions q))"
    and "filter (\<lambda>x. \<not> spec_mcq_correct a x) (enumerate 0 (mcq_questions q)) =
           filter (\<lambda>x. \<not> spec_mcq_correct a' x) (enumerate 0 (mcq_questions q))"
    and "filter (spec_blank_correct a) (enumerate 0 (fill_blanks q)) =
           filter (spec_blank_correct a') (enumerate 0 (fill_blanks q))"
    and "filter (\<lambda>x. \<not> spec_blank_correct a x) (enumerate 0 (fill_blanks q)) =
           filter (\<lambda>x. \<not> spec_blank_correct a' x) (enumerate 0 (fill_blanks q))"
    and "filter (spec_short_correct a) (short_items (short_answers q)) =
           filter (spec_short_correct a') (short_items (short_answers q))"
    and "filter (\<lambda>x. \<not> spec_short_correct a x) (short_items (short_answers q)) =
           filter (\<lambda>x. \<not> spec_short_correct a' x) (short_items (short_answers q))"
proof -
  have m: "spec_mcq_correct a x = spec_mcq_correct a' x"
    if "x \<in> set (enumerate 0 (mcq_questions q))" for x
  proof -
    obtain i m where x: "x = (i, m)" by (cases x)
    with that have "i < length (mcq_questions q)"
      by (simp add: in_set_enumerate_eq)
    then have "''mcq_'' @ str_nat i \<in> set (answer_keys q)"
      by (simp add: answer_keys_def)
    with assms have "a (''mcq_'' @ str_nat i) = a' (''mcq_'' @ str_nat i)"
      by blast
    then show ?thesis
      by (simp add: x spec_mcq_correct_def get_answer_def)
  qed
  have b: "spec_blank_correct a x = spec_blank_correct a' x"
    if "x \<in> set (enumerate 0 (fill_blanks q))" for x
  proof -
    obtain i b where x: "x = (i, b)" by (cases x)
    with that have "i < length (fill_blanks q)"
      by (simp add: in_set_enumerate_eq)
    then have "''blank_'' @ str_nat i \<in> set (answer_keys q)"
      by (simp add: answer_keys_def)
    with assms have "a (''blank_'' @ str_nat i) = a' (''blank_'' @ str_nat i)"
      by blast
    then show ?thesis
      by (simp add: x spec_blank_correct_def get_answer_def)
  qed
  have s: "spec_short_correct a x = spec_short_correct a' x"
    if "x \<in> set (short_items (short_answers q))" for x
  proof -
    obtain i key sq where x: "x = (i, key, sq)" by (cases x)
    with that have "key \<in> set (answer_keys q)"
      by (force simp: answer_keys_def)
    with assms have "a key = a' key"
      by blast
    then show ?thesis
      by (simp add: x spec_short_correct_def get_answer_def)
  qed
  show "filter (spec_mcq_correct a) (enumerate 0 (mcq_questions q)) =
           filter (spec_mcq_correct a') (enumerate 0 (mcq_questions q))"
    by (rule filter_cong) (simp_all add: m)
  show "filter (\<lambda>x. \<not> spec_mcq_correct a x) (enumerate 0 (mcq_questions q)) =
           filter (\<lambda>x. \<not> spec_mcq_correct a' x) (enumerate 0 (mcq_questions q))"
    by (rule filter_cong) (simp_all add: m)
  show "filter (spec_blank_correct a) (enumerate 0 (fill_blanks q)) =
           filter (spec_blank_correct a') (enumerate 0 (fill_blanks q))"
    by (rule filter_cong) (simp_all add: b)
  show "filter (\<lambda>x. \<not> spec_blank_correct a x) (enumerate 0 (fill_blanks q)) =
           filter (\<lambda>x. \<not> spec_blank_correct a' x) (enumerate 0 (fill_blanks q))"
    by (rule filter_cong) (simp_all add: b)
  show "filter (spec_short_correct a) (short_items (short_answers q)) =
           filter (spec_short_correct a') (short_items (short_answers q))"
    by (rule filter_cong) (simp_all add: s)
  show "filter (\<lambda>x. \<not> spec_short_correct a x) (short_items (short_answers q)) =
           filter (\<lambda>x. \<not> spec_short_correct a' x) (short_items (short_answers q))"
    by (rule filter_cong) (simp_all add: s)
qed

lemma score_agree_on_keys:
  assumes "\<forall>k \<in> set (answer_keys q). a k = a' k"
  shows "score q a = score q a'"
  using agree_on_keys [OF assms]
  by (simp add: score_eq spec_correct_def spec_missed_def)

section \<open>Facts about the matcher\<close>





















section \<open>Where the code and the worded rules part\<close>



text \<open>The Submit button marks the quiz submitted only over a non-empty answer set.\<close>

lemma submit_needs_an_answer:
  "\<not> quiz_submitted st \<Longrightarrow> quiz_submitted (submit_quiz st) \<Longrightarrow> quiz_answers st \<noteq> Map.empty"
  by (auto simp: submit_quiz_def split: if_splits)

section \<open>Facts about display_quiz_results\<close>

lemma add_quiz_result_ok:
  assumes "x \<le> y" and "0 < y"
  shows "\<exists>mem'. add_quiz_result mem now topic x y weak = Inr mem' \<and>
                length (quiz_scores mem') = length (quiz_scores mem) + 1"
  using truediv_fraction(1) [OF assms]
  by (simp add: add_quiz_result_def)

lemma display_report:
  "fst (display_quiz_results st q) =
     Some \<lparr>correct = spec_correct q (quiz_answers st), total = spec_total q,
           percentage = (if spec_total q > 0
                         then times_100 (double_of (of_nat (spec_correct q (quiz_answers st)) /
                                                    of_nat (spec_total q)))
                         else 0),
           missed_items = spec_missed q (quiz_answers st)\<rparr>"
  by (simp add: display_quiz_results_def score_eq)


lemma display_saves:
  assumes "0 < spec_total q" and "chains st = Some mem" and "\<not> quiz_saved_to_memory st"
  shows "\<exists>mem'. snd (display_quiz_results st q) =
                  Inr (st\<lparr>chains := Some mem', quiz_saved_to_memory := True\<rparr>) \<and>
               length (quiz_scores mem') = length (quiz_scores mem) + 1"
proof -
  from add_quiz_result_ok [OF spec_correct_le assms(1)]
  obtain mem' where
    "add_quiz_result mem (timestamp_of st) (current_topic st)
       (spec_correct q (quiz_answers st)) (spec_total q) (spec_missed q (quiz_answers st)) = Inr mem'"
    "length (quiz_scores mem') = length (quiz_scores mem) + 1"
    by blast
  with assms show ?thesis
    by (auto simp: display_quiz_results_def score_eq)
qed



section \<open>Fill-in-the-blank grading\<close>

text \<open>
  The step of the fill-blank loop counts the item as correct exactly when the lowered
  submission and the lowered expected answer contain one another, in either direction.
\<close>

lemma blank_step_graded:
  "(correct_answers (blank_step a n i b t) = correct_answers t + 1
      \<longleftrightarrow> spec_blank_correct a (i, b)) \<and>
   (weak_areas (blank_step a n i b t) = weak_areas t \<longleftrightarrow> spec_blank_correct a (i, b))"
  by (simp add: blank_step_fields)

text \<open>
  The empty string is contained in every string, so a blank with no stored answer is
  counted as correct whatever the expected answer is.
\<close>

lemma blank_step_unanswered:
  "a (''blank_'' @ str_nat i) = None \<Longrightarrow>
   correct_answers (blank_step a n i b t) = correct_answers t + 1 \<and>
   weak_areas (blank_step a n i b t) = weak_areas t"
  by (simp add: blank_step_def Let_def get_answer_def lower_def str_in_sublist)

text \<open>
  Claim C1. A fill-blank item is graded correct iff, after lowercasing, the submission
  is a substring of the expected answer or the other way round; an item absent from the
  answer set counts as the empty submission and is graded correct only when the expected
  answer is empty too. The code does not do the last part: with the expected answer
  \<open>resume\<close> and no stored answer, the loop step adds one to \<open>correct_answers\<close> and
  appends no descriptor.
\<close>

theorem unanswered_blank_graded_correct:
  "blank_step Map.empty 3 0 cv_blank
     \<lparr>total_questions = 3, correct_answers = 0, weak_areas = []\<rparr>
   = \<lparr>total_questions = 4, correct_answers = 1, weak_areas = []\<rparr>"
  by code_simp

section \<open>Multiple-choice grading\<close>



section \<open>Short-answer grading\<close>



section \<open>Scoring the empty answer set\<close>




section \<open>The score report\<close>




text \<open>
  Claim C9. Scoring is deterministic and idempotent. The report that
  \<open>display_quiz_results\<close> renders is the same for two sessions that hold the same
  answers, whatever their saved flag, topic, time and learning progress; it is even
  the same when the sessions agree only under the keys of the quiz's own items. When
  the call ends without an exception, calling again on the session it leaves (where the
  result may now be saved) renders the same report and changes nothing more.
\<close>

theorem rescoring_gives_the_same_report:
  "(quiz_answers st = quiz_answers st' \<longrightarrow>
      fst (display_quiz_results st q) = fst (display_quiz_results st' q)) \<and>
   ((\<forall>k \<in> set (answer_keys q). quiz_answers st k = quiz_answers st' k) \<longrightarrow>
      fst (display_quiz_results st q) = fst (display_quiz_results st' q)) \<and>
   (snd (display_quiz_results st q) = Inr st1 \<longrightarrow>
      quiz_answers st1 = quiz_answers st \<and>
      display_quiz_results st1 q = (fst (display_quiz_results st q), Inr st1))"
proof (intro conjI impI)
  assume "quiz_answers st = quiz_answers st'"
  then show "fst (display_quiz_results st q) = fst (display_quiz_results st' q)"
    by (simp add: display_report)
next
  assume "\<forall>k \<in> set (answer_keys q). quiz_answers st k = quiz_answers st' k"
  then have "score q (quiz_answers st) = score q (quiz_answers st')"
    by (rule score_agree_on_keys)
  then show "fst (display_quiz_results st q) = fst (display_quiz_results st' q)"
    by (simp add: display_quiz_results_def split: sum.splits)
next
  assume r: "snd (display_quiz_results st q) = Inr st1"
  then show a: "quiz_answers st1 = quiz_answers st"
    by (auto simp: display_quiz_results_def score_eq split: option.splits if_splits sum.splits)
  from r have "chains st1 = None \<or> quiz_saved_to_memory st1"
    by (auto simp: display_quiz_results_def score_eq split: option.splits if_splits sum.splits)
  then have "snd (display_quiz_results st1 q) = Inr st1"
    by (auto simp: display_quiz_results_def score_eq split: option.splits)
  moreover have "fst (display_quiz_results st1 q) = fst (display_quiz_results st q)"
    using a by (simp add: display_report)
  ultimately show "display_quiz_results st1 q = (fst (display_quiz_results st q), Inr st1)"
    by (simp add: prod_eq_iff)
qed

theorem rescoring_gives_the_same_report_witness:
  "quiz_answers session_one = quiz_answers session_two \<and>
   quiz_saved_to_memory session_one \<noteq> quiz_saved_to_memory session_two \<and>
   chains session_one \<noteq> chains session_two \<and>
   current_topic session_one \<noteq> current_topic session_two \<and>
   fst (display_quiz_results session_one create_fallback_quiz_data) =
     fst (display_quiz_results session_two create_fallback_quiz_data) \<and>
   answer_keys one_mcq_quiz = [''mcq_0''] \<and>
   quiz_answers session_one ''mcq_0'' = quiz_answers session_three ''mcq_0'' \<and>
   quiz_answers session_one ''blank_0'' \<noteq> quiz_answers session_three ''blank_0'' \<and>
   fst (display_quiz_results session_one one_mcq_quiz) =
     fst (display_quiz_results session_three one_mcq_quiz) \<and>
   (\<exists>st1 mem'. snd (display_quiz_results session_one create_fallback_quiz_data) = Inr st1 \<and>
      st1 = session_one\<lparr>chains := Some mem', quiz_saved_to_memory := True\<rparr> \<and>
      length (quiz_scores mem') = 1 \<and>
      quiz_answers st1 = quiz_answers session_one \<and>
      display_quiz_results st1 create_fallback_quiz_data =
        (fst (display_quiz_results session_one create_fallback_quiz_data), Inr st1))"
proof -
  have h: "quiz_answers session_one = quiz_answers session_two"
    by (simp add: session_one_def session_two_def)
  have d: "quiz_saved_to_memory session_one \<noteq> quiz_saved_to_memory session_two \<and>
           chains session_one \<noteq> chains session_two \<and>
           current_topic session_one \<noteq> current_topic session_two"
    by (simp add: session_one_def session_two_def)
  have k: "answer_keys one_mcq_quiz = [''mcq_0'']"
    by code_simp
  have e: "quiz_answers session_one ''mcq_0'' = quiz_answers session_three ''mcq_0'' \<and>
           quiz_answers session_one ''blank_0'' \<noteq> quiz_answers session_three ''blank_0''"
    by (simp add: session_one_def session_three_def)
  then have ks: "\<forall>k \<in> set (answer_keys one_mcq_quiz).
                   quiz_answers session_one k = quiz_answers session_three k"
    by (simp add: k)
  have pos: "0 < spec_total create_fallback_quiz_data"
    using fallback_counts by simp
  have c: "chains session_one = Some no_progress" "\<not> quiz_saved_to_memory session_one"
    by (simp_all add: session_one_def)
  from display_saves [OF pos c]
  obtain mem' where
    s: "snd (display_quiz_results session_one create_fallback_quiz_data) =
          Inr (session_one\<lparr>chains := Some mem', quiz_saved_to_memory := True\<rparr>)"
    and l: "length (quiz_scores mem') = 1"
    by (auto simp: no_progress_def)
  let ?st1 = "session_one\<lparr>chains := Some mem', quiz_saved_to_memory := True\<rparr>"
  from rescoring_gives_the_same_report
         [of session_one session_two create_fallback_quiz_data ?st1] h s
  have a: "fst (display_quiz_results session_one create_fallback_quiz_data) =
             fst (display_quiz_results session_two create_fallback_quiz_data) \<and>
           quiz_answers ?st1 = quiz_answers session_one \<and>
           display_quiz_results ?st1 create_fallback_quiz_data =
             (fst (display_quiz_results session_one create_fallback_quiz_data), Inr ?st1)"
    by blast
  from rescoring_gives_the_same_report [of session_one session_three one_mcq_quiz ?st1] ks
  have b: "fst (display_quiz_results session_one one_mcq_quiz) =
             fst (display_quiz_results session_three one_mcq_quiz)"
    by blast
  from h d k e a b s l show ?thesis by blast
qed

text \<open>
  Claim C10. In every report \<open>0 \<le> correct \<le> total\<close>, the percentage lies between 0
  and 100, and the number of missed-item descriptors is \<open>total - correct\<close>: every item
  either adds one to \<open>correct\<close> or appends one descriptor. The descriptors stand in
  item order: failing MCQs, then failing fill-blanks, then failing short answers.
\<close>

theorem score_report_bounds:
  "\<exists>r. score q a = Inr r \<and>
       0 \<le> correct r \<and> correct r \<le> total r \<and>
       0 \<le> percentage r \<and> percentage r \<le> 100 \<and>
       length (missed_items r) = total r - correct r \<and>
       correct r + length (missed_items r) = total r \<and>
       missed_items r = spec_missed q a"
proof -
  have le: "spec_correct q a \<le> spec_total q"
    by (rule spec_correct_le)
  have len: "length (spec_missed q a) = spec_total q - spec_correct q a"
    using spec_correct_missed [of q a] by linarith
  have p: "0 \<le> times_100 (double_of (of_nat (spec_correct q a) / of_nat (spec_total q))) \<and>
           times_100 (double_of (of_nat (spec_correct q a) / of_nat (spec_total q))) \<le> 100"
    if pos: "spec_total q > 0"
    using times_100_bounds [OF truediv_fraction(2,3) [OF le pos]] by simp
  show ?thesis
    using le len p spec_correct_missed [of q a] by (simp add: score_eq)
qed

section \<open>Parsing\<close>

lemma mcq_pattern_flexible_same: "mcq_pattern_flexible = mcq_pattern"
  by (simp add: mcq_pattern_flexible_def mcq_pattern_def)

text \<open>
  Claim C3. When the multiple-choice, fill-blank and short-answer extractions all find
  nothing, the parser returns the fallback quiz, which is the canned content: 3
  multiple-choice, 2 fill-blank and 2 short-answer items, 7 in all. The parser is a
  total function: an exception in its body is answered with the same fallback quiz.
\<close>

theorem parse_fallback_when_nothing_extracted:
  "mcq_matches quiz_text = [] \<and> blank_matches quiz_text = [] \<and>
   search False short_pattern quiz_text = None
   \<longrightarrow> parse_quiz_for_display quiz_text = create_fallback_quiz_data \<and>
       length (mcq_questions (parse_quiz_for_display quiz_text)) = 3 \<and>
       length (fill_blanks (parse_quiz_for_display quiz_text)) = 2 \<and>
       length (short_items (short_answers (parse_quiz_for_display quiz_text))) = 2 \<and>
       spec_total (parse_quiz_for_display quiz_text) = 7"
proof
  assume h: "mcq_matches quiz_text = [] \<and> blank_matches quiz_text = [] \<and>
             search False short_pattern quiz_text = None"
  then have "parse_body quiz_text = Some create_fallback_quiz_data"
    by (simp add: parse_body_def short_of_match_def)
  then have "parse_quiz_for_display quiz_text = create_fallback_quiz_data"
    by (simp add: parse_quiz_for_display_def)
  then show "parse_quiz_for_display quiz_text = create_fallback_quiz_data \<and>
       length (mcq_questions (parse_quiz_for_display quiz_text)) = 3 \<and>
       length (fill_blanks (parse_quiz_for_display quiz_text)) = 2 \<and>
       length (short_items (short_answers (parse_quiz_for_display quiz_text))) = 2 \<and>
       spec_total (parse_quiz_for_display quiz_text) = 7"
    using fallback_counts by simp
qed

theorem parse_fallback_when_nothing_extracted_witness:
  "(mcq_matches ''no quiz here'' = [] \<and> blank_matches ''no quiz here'' = [] \<and>
    search False short_pattern ''no quiz here'' = None) \<and>
   parse_quiz_for_display ''no quiz here'' = create_fallback_quiz_data \<and>
   spec_total (parse_quiz_for_display ''no quiz here'') = 7"
proof -
  have h: "mcq_matches ''no quiz here'' = [] \<and> blank_matches ''no quiz here'' = [] \<and>
           search False short_pattern ''no quiz here'' = None"
    by code_simp
  from parse_fallback_when_nothing_extracted [of "''no quiz here''"] h
  show ?thesis by blast
qed

text \<open>
  Claim C5, as stated: the two passes over the multiple-choice pattern give the same
  items as one pass with \<open>re.IGNORECASE\<close>. They do not: under the flag the class
  \<open>[^A-D]\<close> also excludes the lower-case letters a to d, so a prompt holding a
  lower-case \<open>b\<close> matches in the strict pass and not in the case-insensitive one.
\<close>

theorem two_pass_differs_from_ignorecase_pass:
  "mcq_items (mcq_matches lowercase_prompt) =
     Some [\<lparr>mcq_question = ''1.b'', mcq_options = [''x'', ''y'', ''z'', ''w''],
            mcq_correct = ''A''\<rparr>] \<and>
   mcq_items (mcq_single_pass_ignorecase lowercase_prompt) = Some [] \<and>
   mcq_items (mcq_matches lowercase_prompt) \<noteq>
     mcq_items (mcq_single_pass_ignorecase lowercase_prompt)"
  by code_simp

text \<open>
  Claim C5, amended. The two passes give the matches of the strict, case-sensitive pass
  whenever that pass finds at least one, and the matches of the single case-insensitive
  pass only when the strict pass finds none.
\<close>

theorem two_pass_is_strict_else_ignorecase:
  "(findall False mcq_pattern t \<noteq> [] \<longrightarrow> mcq_matches t = findall False mcq_pattern t) \<and>
   (findall False mcq_pattern t = [] \<longrightarrow> mcq_matches t = mcq_single_pass_ignorecase t)"
  by (simp add: mcq_matches_def mcq_single_pass_ignorecase_def mcq_pattern_flexible_same)

theorem two_pass_is_strict_else_ignorecase_witness:
  "findall False mcq_pattern lowercase_prompt \<noteq> [] \<and>
   mcq_matches lowercase_prompt = findall False mcq_pattern lowercase_prompt \<and>
   findall False mcq_pattern lowercase_markers = [] \<and>
   mcq_matches lowercase_markers = mcq_single_pass_ignorecase lowercase_markers"
proof -
  have h1: "findall False mcq_pattern lowercase_prompt \<noteq> []"
    by code_simp
  have h2: "findall False mcq_pattern lowercase_markers = []"
    by code_simp
  from two_pass_is_strict_else_ignorecase [of lowercase_prompt]
       two_pass_is_strict_else_ignorecase [of lowercase_markers] h1 h2
  show ?thesis by blast
qed

lemma short_of_match_shape:
  "short_of_match m = Some sa \<Longrightarrow>
   sa = ShortNone \<or> (\<exists>q. sa = ShortSingle q) \<or> (\<exists>q1 q2. sa = ShortList [q1, q2])"
  by (auto simp: short_of_match_def split: option.splits if_splits Option.bind_splits)

lemma parse_short_shape:
  "short_answers (parse_quiz_for_display t) = ShortNone \<or>
   (\<exists>q. short_answers (parse_quiz_for_display t) = ShortSingle q) \<or>
   (\<exists>q1 q2. short_answers (parse_quiz_for_display t) = ShortList [q1, q2])"
proof (cases "parse_body t")
  case None
  then show ?thesis
    by (simp add: parse_quiz_for_display_def create_fallback_quiz_data_def)
next
  case (Some qd)
  then obtain ms bs sa where
    sa: "short_of_match (search False short_pattern t) = Some sa" and
    qd: "qd = (if ms = [] \<and> bs = [] \<and> \<not> short_truthy sa then create_fallback_quiz_data
              else \<lparr>mcq_questions = ms, fill_blanks = bs, short_answers = sa, raw_text = t\<rparr>)"
    by (auto simp: parse_body_def split: Option.bind_splits)
  have "short_answers qd = sa \<or> short_answers qd = short_answers create_fallback_quiz_data"
    using qd by (simp split: if_splits)
  then show ?thesis
    using short_of_match_shape [OF sa] Some
    by (auto simp: parse_quiz_for_display_def create_fallback_quiz_data_def)
qed

lemma three_entries_parsed:
  "short_answers (parse_quiz_for_display three_entries) =
     ShortList [\<lparr>short_question = ''1. Q1'', short_expected = ''a1''\<rparr>,
                \<lparr>short_question = ''Q2'', short_expected = ''a2''\<rparr>]"
  by code_simp

text \<open>
  Claim C8. The parser yields at most two short-answer items for every text: the
  \<open>short_answer\<close> entry is empty, one item, or a list of exactly two. Of a section with
  three entries the first two are kept and the third is dropped.
\<close>

theorem parse_at_most_two_short_answers:
  "length (short_items (short_answers (parse_quiz_for_display t))) \<le> 2 \<and>
   (short_answers (parse_quiz_for_display t) = ShortNone \<or>
    (\<exists>q. short_answers (parse_quiz_for_display t) = ShortSingle q) \<or>
    (\<exists>q1 q2. short_answers (parse_quiz_for_display t) = ShortList [q1, q2])) \<and>
   short_answers (parse_quiz_for_display three_entries) =
     ShortList [\<lparr>short_question = ''1. Q1'', short_expected = ''a1''\<rparr>,
                \<lparr>short_question = ''Q2'', short_expected = ''a2''\<rparr>]"
proof -
  have "length (short_items (short_answers (parse_quiz_for_display t))) \<le> 2"
    using parse_short_shape [of t] by auto
  then show ?thesis
    using parse_short_shape [of t] three_entries_parsed by blast
qed

end
